theory Spec2Isabelle
  imports Main
begin

section \<open>Database models (src/app.py, lines 24-89)\<close>

text \<open>
  Each SQLAlchemy model class is a record; each table is the list of its rows in
  insertion order. Field names follow the source; where two classes use the same
  column name the later one carries a prefix (\<open>u_department_id\<close>, \<open>av_faculty_id\<close>,
  \<open>n_appointment_id\<close>, ...).

  \<open>User.department_id\<close> is the one column that receives a raw form string
  (\<open>register\<close>) as well as integers (\<open>init_db\<close>), so its stored value is an
  \<open>sql_value\<close>: NULL, an integer, or something that is not an integer.
\<close>

datatype sql_value = SqlNull | SqlInt int | SqlOther string

type_synonym datetime = int

record department_row =
  department_id :: int
  department_name :: string
  building :: "string option"
  phone :: "string option"

record user_row =
  user_id :: int
  name :: string
  email :: string
  role :: string
  password_hash :: string
  u_department_id :: sql_value

record availability_row =
  availability_id :: int
  av_faculty_id :: int
  day_of_week :: string
  av_start_time :: string
  av_end_time :: string
  is_available :: bool

record appointment_row =
  appointment_id :: int
  student_id :: int
  faculty_id :: int
  appointment_date :: string
  start_time :: string
  end_time :: string
  status :: string
  purpose :: "string option"

record notification_row =
  notification_id :: int
  n_appointment_id :: int
  message :: string
  created_at :: datetime
  sent_status :: string

record store =
  tbl_departments :: "department_row list"
  tbl_users :: "user_row list"
  tbl_availability :: "availability_row list"
  tbl_appointments :: "appointment_row list"
  tbl_notifications :: "notification_row list"

definition empty_store :: store where
  "empty_store = \<lparr>tbl_departments = [], tbl_users = [], tbl_availability = [],
     tbl_appointments = [], tbl_notifications = []\<rparr>"

section \<open>What the handlers take from outside the repository\<close>

text \<open>
  The library functions the handlers call are parameters of the model, so every theorem
  holds whatever they compute:
  \<^item> \<open>py_int\<close>: Python's \<open>int(str)\<close>; \<open>None\<close> stands for its \<open>ValueError\<close>;
  \<^item> \<open>generate_password_hash\<close>: werkzeug's salted hash, with the salt it draws made
    an explicit first argument;
  \<^item> \<open>check_password_hash\<close>: werkzeug's check of a stored hash against a password;
  \<^item> \<open>integer_affinity\<close>: what SQLite stores when a string is written to an INTEGER
    column.
\<close>

record env =
  py_int :: "string \<Rightarrow> int option"
  generate_password_hash :: "string \<Rightarrow> string \<Rightarrow> string"
  check_password_hash :: "string \<Rightarrow> string \<Rightarrow> bool"
  integer_affinity :: "string \<Rightarrow> sql_value"

text \<open>
  SQLite integers are 64-bit signed, Python's are unbounded: a statement that binds a
  larger Python int raises OverflowError. The two integers that reach the database from a
  request are the \<open>faculty_id\<close> of a new appointment and the id in the cancel URL.
\<close>

definition in_int64 :: "int \<Rightarrow> bool" where
  "in_int64 i \<longleftrightarrow> - (2 ^ 63) \<le> i \<and> i < 2 ^ 63"

text \<open>
  An INTEGER PRIMARY KEY column left unset on insert gets 1 in an empty table and the
  largest key plus one otherwise.
\<close>

definition next_id :: "int list \<Rightarrow> int" where
  "next_id ids = (case ids of [] \<Rightarrow> 1 | i # rest \<Rightarrow> fold max rest i + 1)"

section \<open>Requests, sessions and responses\<close>

datatype http_method = GET | HEAD | POST

record request =
  req_method :: http_method
  req_form :: "(string \<times> string) list"

text \<open>
  Of the session only the key \<open>user_id\<close> is read by the handlers: \<open>None\<close> is a
  session without it. Flashed messages are kept as the list of (message, category) pairs a
  handler emits. An \<open>outcome\<close> is what one call of a handler leaves behind: the
  response or the exception that ended it, the messages flashed, the store and the
  session.
\<close>

type_synonym session = "int option"

type_synonym flash = "string \<times> string"

datatype endpoint = Ep_register | Ep_login | Ep_dashboard | Ep_appointments

datatype template =
    Register_html "department_row list"
  | Login_html
  | Dashboard_html user_row nat nat "string list" "nat list"
  | Appointments_html "appointment_row list" user_row
  | New_appointment_html "user_row list"
  | Availability_html "availability_row list"
  | Departments_html "department_row list"

datatype response = Redirect endpoint | Render template

datatype error =
    BadRequestKeyError
  | ValueError
  | OverflowError
  | NotFound
  | AttributeError
  | IntegrityError

record outcome =
  reply :: "error + response"
  flashed :: "flash list"
  db :: store
  sess_out :: session

definition respond :: "response \<Rightarrow> flash list \<Rightarrow> store \<Rightarrow> session \<Rightarrow> outcome" where
  "respond r fl s sess = \<lparr>reply = Inr r, flashed = fl, db = s, sess_out = sess\<rparr>"

definition raise :: "error \<Rightarrow> store \<Rightarrow> session \<Rightarrow> outcome" where
  "raise err s sess = \<lparr>reply = Inl err, flashed = [], db = s, sess_out = sess\<rparr>"

section \<open>Helper functions (lines 96-112)\<close>

definition current_user :: "session \<Rightarrow> store \<Rightarrow> user_row option" where
  "current_user sess s =
     (case sess of
        None \<Rightarrow> None
      | Some uid \<Rightarrow>
          if uid \<noteq> 0 then find (\<lambda>u. user_id u = uid) (tbl_users s) else None)"

definition login_required ::
  "(session \<Rightarrow> store \<Rightarrow> outcome) \<Rightarrow> session \<Rightarrow> store \<Rightarrow> outcome" where
  "login_required func sess s =
     (if sess = None
      then respond (Redirect Ep_login) [(''Please log in first.'', ''warning'')] s sess
      else func sess s)"

section \<open>Routes: Auth (lines 119-170)\<close>

definition register :: "env \<Rightarrow> string \<Rightarrow> request \<Rightarrow> session \<Rightarrow> store \<Rightarrow> outcome" where
  "register e salt req sess s =
     (if req_method req = POST then
        (case map_of (req_form req) ''name'' of
           None \<Rightarrow> raise BadRequestKeyError s sess
         | Some nm \<Rightarrow>
        (case map_of (req_form req) ''email'' of
           None \<Rightarrow> raise BadRequestKeyError s sess
         | Some em \<Rightarrow>
        (case map_of (req_form req) ''password'' of
           None \<Rightarrow> raise BadRequestKeyError s sess
         | Some password \<Rightarrow>
        (case map_of (req_form req) ''role'' of
           None \<Rightarrow> raise BadRequestKeyError s sess
         | Some rl \<Rightarrow>
             let dept = map_of (req_form req) ''department_id'' in
             if find (\<lambda>u. email u = em) (tbl_users s) \<noteq> None
             then respond (Redirect Ep_register)
                    [(''Email already registered.'', ''danger'')] s sess
             else
               let user = \<lparr>user_id = next_id (map user_id (tbl_users s)),
                            name = nm, email = em, role = rl,
                            password_hash = generate_password_hash e salt password,
                            u_department_id =
                              (case dept of
                                 None \<Rightarrow> SqlNull
                               | Some d \<Rightarrow> if d \<noteq> [] then integer_affinity e d else SqlNull)\<rparr>
               in respond (Redirect Ep_login)
                    [(''Registration successful. Please log in.'', ''success'')]
                    (s\<lparr>tbl_users := tbl_users s @ [user]\<rparr>) sess))))
      else respond (Render (Register_html (tbl_departments s))) [] s sess)"

definition login :: "env \<Rightarrow> request \<Rightarrow> session \<Rightarrow> store \<Rightarrow> outcome" where
  "login e req sess s =
     (if req_method req = POST then
        (case map_of (req_form req) ''email'' of
           None \<Rightarrow> raise BadRequestKeyError s sess
         | Some em \<Rightarrow>
        (case map_of (req_form req) ''password'' of
           None \<Rightarrow> raise BadRequestKeyError s sess
         | Some password \<Rightarrow>
            (case find (\<lambda>u. email u = em) (tbl_users s) of
               None \<Rightarrow>
                 respond (Render Login_html) [(''Invalid email or password.'', ''danger'')] s sess
             | Some user \<Rightarrow>
                 if check_password_hash e (password_hash user) password
                 then respond (Redirect Ep_dashboard)
                        [(''Logged in successfully.'', ''success'')] s (Some (user_id user))
                 else respond (Render Login_html)
                        [(''Invalid email or password.'', ''danger'')] s sess)))
      else respond (Render Login_html) [] s sess)"

definition logout :: "session \<Rightarrow> store \<Rightarrow> outcome" where
  "logout sess s = respond (Redirect Ep_login) [(''Logged out.'', ''info'')] s None"

section \<open>Routes: Dashboard (lines 177-219)\<close>

definition index :: "session \<Rightarrow> store \<Rightarrow> outcome" where
  "index sess s =
     (if sess \<noteq> None then respond (Redirect Ep_dashboard) [] s sess
      else respond (Redirect Ep_login) [] s sess)"

text \<open>
  The rows of Department JOIN User ON User.department_id = Department.department_id
  JOIN Appointment ON Appointment.faculty_id = User.user_id.
\<close>

definition dept_join :: "store \<Rightarrow> (department_row \<times> user_row \<times> appointment_row) list" where
  "dept_join s =
     [(d, u, a).
        d \<leftarrow> tbl_departments s,
        u \<leftarrow> tbl_users s, u_department_id u = SqlInt (department_id d),
        a \<leftarrow> tbl_appointments s, faculty_id a = user_id u]"

text \<open>
  GROUP BY department_name with count(appointment_id): one pair per name that occurs in
  the join, with the number of joined rows of that name. SQL leaves the order of the
  groups open; the model lists them in the order \<open>remdups\<close> gives.
\<close>

definition dept_counts :: "store \<Rightarrow> (string \<times> nat) list" where
  "dept_counts s =
     (let rows = dept_join s
      in map (\<lambda>n. (n, length (filter (\<lambda>(d, u, a). department_name d = n) rows)))
           (remdups (map (\<lambda>(d, u, a). department_name d) rows)))"

definition dashboard_body :: "session \<Rightarrow> store \<Rightarrow> outcome" where
  "dashboard_body sess s =
     (let total_appointments = length (tbl_appointments s)
      in case current_user sess s of
           None \<Rightarrow> raise AttributeError s sess
         | Some user \<Rightarrow>
             let my_appointments =
                   (if role user = ''student''
                    then length (filter (\<lambda>a. student_id a = user_id user) (tbl_appointments s))
                    else if role user = ''faculty''
                    then length (filter (\<lambda>a. faculty_id a = user_id user) (tbl_appointments s))
                    else total_appointments);
                 counts = dept_counts s;
                 labels = map fst counts;
                 vals = map snd counts
             in respond (Render (Dashboard_html user total_appointments my_appointments
                                   labels vals)) [] s sess)"

definition dashboard :: "session \<Rightarrow> store \<Rightarrow> outcome" where
  "dashboard = login_required dashboard_body"

section \<open>Routes: Appointments (lines 226-301)\<close>

definition appointments_body :: "session \<Rightarrow> store \<Rightarrow> outcome" where
  "appointments_body sess s =
     (case current_user sess s of
        None \<Rightarrow> raise AttributeError s sess
      | Some user \<Rightarrow>
          let appts =
                (if role user = ''student''
                 then filter (\<lambda>a. student_id a = user_id user) (tbl_appointments s)
                 else if role user = ''faculty''
                 then filter (\<lambda>a. faculty_id a = user_id user) (tbl_appointments s)
                 else tbl_appointments s)
          in respond (Render (Appointments_html appts user)) [] s sess)"

definition appointments :: "session \<Rightarrow> store \<Rightarrow> outcome" where
  "appointments = login_required appointments_body"

definition new_appointment_body ::
  "env \<Rightarrow> datetime \<Rightarrow> request \<Rightarrow> session \<Rightarrow> store \<Rightarrow> outcome" where
  "new_appointment_body e now req sess s =
     (case current_user sess s of
        None \<Rightarrow> raise AttributeError s sess
      | Some user \<Rightarrow>
          if role user \<noteq> ''student''
          then respond (Redirect Ep_appointments)
                 [(''Only students can create appointments in this demo.'', ''warning'')] s sess
          else if req_method req = POST then
            (case map_of (req_form req) ''faculty_id'' of
               None \<Rightarrow> raise BadRequestKeyError s sess
             | Some faculty_text \<Rightarrow>
            (case py_int e faculty_text of
               None \<Rightarrow> raise ValueError s sess
             | Some fid \<Rightarrow>
            (case map_of (req_form req) ''appointment_date'' of
               None \<Rightarrow> raise BadRequestKeyError s sess
             | Some date \<Rightarrow>
            (case map_of (req_form req) ''start_time'' of
               None \<Rightarrow> raise BadRequestKeyError s sess
             | Some start \<Rightarrow>
            (case map_of (req_form req) ''end_time'' of
               None \<Rightarrow> raise BadRequestKeyError s sess
             | Some end \<Rightarrow>
            (case map_of (req_form req) ''purpose'' of
               None \<Rightarrow> raise BadRequestKeyError s sess
             | Some purp \<Rightarrow>
                 if \<not> in_int64 fid
                 then raise OverflowError s sess \<comment> \<open>the INSERT cannot bind \<open>faculty_id\<close>\<close>
                 else
                   let appt = \<lparr>appointment_id = next_id (map appointment_id (tbl_appointments s)),
                                student_id = user_id user, faculty_id = fid,
                                appointment_date = date, start_time = start, end_time = end,
                                status = ''scheduled'', purpose = Some purp\<rparr>;
                       s1 = s\<lparr>tbl_appointments := tbl_appointments s @ [appt]\<rparr>;
                       notif = \<lparr>notification_id =
                                   next_id (map notification_id (tbl_notifications s1)),
                                 n_appointment_id = appointment_id appt,
                                 message = ''New appointment on '' @ date @ '' at '' @ start,
                                 created_at = now, sent_status = ''pending''\<rparr>;
                       s2 = s1\<lparr>tbl_notifications := tbl_notifications s1 @ [notif]\<rparr>
                   in respond (Redirect Ep_appointments)
                        [(''Appointment created.'', ''success'')] s2 sess))))))
          else respond (Render (New_appointment_html
                                  (filter (\<lambda>u. role u = ''faculty'') (tbl_users s)))) [] s sess)"

definition new_appointment ::
  "env \<Rightarrow> datetime \<Rightarrow> request \<Rightarrow> session \<Rightarrow> store \<Rightarrow> outcome" where
  "new_appointment e now req = login_required (new_appointment_body e now req)"

definition cancel_appointment_body :: "int \<Rightarrow> session \<Rightarrow> store \<Rightarrow> outcome" where
  "cancel_appointment_body aid sess s =
     (let user = current_user sess s
      in if \<not> in_int64 aid
         then raise OverflowError s sess \<comment> \<open>the SELECT of \<open>get_or_404\<close> cannot bind the id\<close>
         else
           case find (\<lambda>a. appointment_id a = aid) (tbl_appointments s) of
             None \<Rightarrow> raise NotFound s sess
           | Some appt \<Rightarrow>
              (case user of
                 None \<Rightarrow> raise AttributeError s sess
               | Some user \<Rightarrow>
                   if role user = ''student'' \<and> student_id appt \<noteq> user_id user
                   then respond (Redirect Ep_appointments)
                          [(''You cannot cancel others' appointments.'', ''danger'')] s sess
                   else if role user = ''faculty'' \<and> faculty_id appt \<noteq> user_id user
                   then respond (Redirect Ep_appointments)
                          [(''You cannot cancel others' appointments.'', ''danger'')] s sess
                   else
                     respond (Redirect Ep_appointments) [(''Appointment cancelled.'', ''info'')]
                       (s\<lparr>tbl_appointments :=
                            map (\<lambda>a. if appointment_id a = aid
                                      then a\<lparr>status := ''cancelled''\<rparr> else a)
                              (tbl_appointments s)\<rparr>) sess))"

definition cancel_appointment :: "int \<Rightarrow> session \<Rightarrow> store \<Rightarrow> outcome" where
  "cancel_appointment aid = login_required (cancel_appointment_body aid)"

section \<open>Routes: Availability (lines 308-333)\<close>

definition availability_body :: "request \<Rightarrow> session \<Rightarrow> store \<Rightarrow> outcome" where
  "availability_body req sess s =
     (case current_user sess s of
        None \<Rightarrow> raise AttributeError s sess
      | Some user \<Rightarrow>
          if role user \<noteq> ''faculty''
          then respond (Redirect Ep_dashboard)
                 [(''Only faculty can manage availability.'', ''warning'')] s sess
          else if req_method req = POST then
            (case map_of (req_form req) ''day_of_week'' of
               None \<Rightarrow> raise BadRequestKeyError s sess
             | Some day \<Rightarrow>
            (case map_of (req_form req) ''start_time'' of
               None \<Rightarrow> raise BadRequestKeyError s sess
             | Some start \<Rightarrow>
            (case map_of (req_form req) ''end_time'' of
               None \<Rightarrow> raise BadRequestKeyError s sess
             | Some end \<Rightarrow>
                 let slot = \<lparr>availability_id = next_id (map availability_id (tbl_availability s)),
                              av_faculty_id = user_id user, day_of_week = day,
                              av_start_time = start, av_end_time = end, is_available = True\<rparr>;
                     s1 = s\<lparr>tbl_availability := tbl_availability s @ [slot]\<rparr>;
                     slots = filter (\<lambda>v. av_faculty_id v = user_id user) (tbl_availability s1)
                 in respond (Render (Availability_html slots))
                      [(''Availability slot added.'', ''success'')] s1 sess)))
          else
            respond (Render (Availability_html
                       (filter (\<lambda>v. av_faculty_id v = user_id user) (tbl_availability s))))
              [] s sess)"

definition availability :: "request \<Rightarrow> session \<Rightarrow> store \<Rightarrow> outcome" where
  "availability req = login_required (availability_body req)"

section \<open>Routes: Departments (lines 340-359)\<close>

definition departments_body :: "request \<Rightarrow> session \<Rightarrow> store \<Rightarrow> outcome" where
  "departments_body req sess s =
     (case current_user sess s of
        None \<Rightarrow> raise AttributeError s sess
      | Some user \<Rightarrow>
          if role user \<noteq> ''admin''
          then respond (Redirect Ep_dashboard)
                 [(''Only admin can manage departments.'', ''warning'')] s sess
          else if req_method req = POST then
            (case map_of (req_form req) ''department_name'' of
               None \<Rightarrow> raise BadRequestKeyError s sess
             | Some nm \<Rightarrow>
            (case map_of (req_form req) ''building'' of
               None \<Rightarrow> raise BadRequestKeyError s sess
             | Some bld \<Rightarrow>
            (case map_of (req_form req) ''phone'' of
               None \<Rightarrow> raise BadRequestKeyError s sess
             | Some ph \<Rightarrow>
                 if nm \<in> set (map department_name (tbl_departments s))
                 then raise IntegrityError s sess \<comment> \<open>\<open>department_name\<close> is unique\<close>
                 else
                   let dept = \<lparr>department_id = next_id (map department_id (tbl_departments s)),
                                department_name = nm, building = Some bld, phone = Some ph\<rparr>;
                       s1 = s\<lparr>tbl_departments := tbl_departments s @ [dept]\<rparr>
                   in respond (Render (Departments_html (tbl_departments s1)))
                        [(''Department added.'', ''success'')] s1 sess)))
          else respond (Render (Departments_html (tbl_departments s))) [] s sess)"

definition departments :: "request \<Rightarrow> session \<Rightarrow> store \<Rightarrow> outcome" where
  "departments req = login_required (departments_body req)"

section \<open>CLI helper init-db (lines 366-438)\<close>

text \<open>
  \<open>drop_all\<close> and \<open>create_all\<close> leave five empty tables, so the three departments get
  the keys 1, 2, 3 and the five users the keys 1 to 5, in the order of \<open>add_all\<close>.
  \<open>salts k\<close> is the salt of the k-th call of \<open>generate_password_hash\<close>, in the order
  the source makes them.
\<close>

definition init_db :: "env \<Rightarrow> (nat \<Rightarrow> string) \<Rightarrow> store \<Rightarrow> store" where
  "init_db e salts s =
     (let cs = \<lparr>department_id = 1, department_name = ''Computer Science'',
                 building = Some ''Ahlberg Hall'', phone = Some ''316-978-3000''\<rparr>;
          math = \<lparr>department_id = 2, department_name = ''Mathematics'',
                   building = Some ''Jabara Hall'', phone = Some ''316-978-3160''\<rparr>;
          ee = \<lparr>department_id = 3, department_name = ''Electrical Engineering'',
                 building = Some ''Wallace Hall'', phone = Some ''316-978-3400''\<rparr>;
          admin = \<lparr>user_id = 1, name = ''Admin User'', email = ''admin@university.edu'',
                    role = ''admin'',
                    password_hash = generate_password_hash e (salts 0) ''admin123'',
                    u_department_id = SqlInt (department_id cs)\<rparr>;
          faculty1 = \<lparr>user_id = 2, name = ''Dr. Johnson (Computer Science)'',
                       email = ''johnson@wsu.edu'', role = ''faculty'',
                       password_hash = generate_password_hash e (salts 1) ''demo-johnson'',
                       u_department_id = SqlInt (department_id cs)\<rparr>;
          faculty2 = \<lparr>user_id = 3, name = ''Dr. Emily Lee (Mathematics)'',
                       email = ''elee@wsu.edu'', role = ''faculty'',
                       password_hash = generate_password_hash e (salts 2) ''demo-lee'',
                       u_department_id = SqlInt (department_id math)\<rparr>;
          faculty3 = \<lparr>user_id = 4, name = ''Dr. Patel (Electrical Engineering)'',
                       email = ''patel@wsu.edu'', role = ''faculty'',
                       password_hash = generate_password_hash e (salts 3) ''demo-patel'',
                       u_department_id = SqlInt (department_id ee)\<rparr>;
          student = \<lparr>user_id = 5, name = ''John Student'', email = ''student@university.edu'',
                      role = ''student'',
                      password_hash = generate_password_hash e (salts 4) ''student123'',
                      u_department_id = SqlInt (department_id cs)\<rparr>
      in \<lparr>tbl_departments = [cs, math, ee],
          tbl_users = [admin, faculty1, faculty2, faculty3, student],
          tbl_availability = [], tbl_appointments = [], tbl_notifications = []\<rparr>)"

section \<open>The application as a transition system\<close>

text \<open>
  One event per route, carrying what the handler reads from outside the store: the
  request, the salt drawn for a new password hash, the clock reading for a new
  notification. A step runs one handler with the session cookie of whichever client sent
  the request, so the session of a step is arbitrary.
\<close>

datatype event =
    Ev_register string request
  | Ev_login request
  | Ev_logout
  | Ev_index
  | Ev_dashboard
  | Ev_appointments
  | Ev_new_appointment datetime request
  | Ev_cancel_appointment int
  | Ev_availability request
  | Ev_departments request

fun handle :: "env \<Rightarrow> event \<Rightarrow> session \<Rightarrow> store \<Rightarrow> outcome" where
  "handle e (Ev_register salt req) sess s = register e salt req sess s"
| "handle e (Ev_login req) sess s = login e req sess s"
| "handle e Ev_logout sess s = logout sess s"
| "handle e Ev_index sess s = index sess s"
| "handle e Ev_dashboard sess s = dashboard sess s"
| "handle e Ev_appointments sess s = appointments sess s"
| "handle e (Ev_new_appointment now req) sess s = new_appointment e now req sess s"
| "handle e (Ev_cancel_appointment aid) sess s = cancel_appointment aid sess s"
| "handle e (Ev_availability req) sess s = availability req sess s"
| "handle e (Ev_departments req) sess s = departments req sess s"

inductive reachable :: "env \<Rightarrow> store \<Rightarrow> bool" for e :: env where
  start: "reachable e empty_store"
| http: "reachable e s \<Longrightarrow> reachable e (db (handle e ev sess s))"
| cli: "reachable e s \<Longrightarrow> reachable e (init_db e salts s)"

section \<open>Sample data for the concrete instances\<close>

text \<open>
  A small environment and the stores on which the theorems below are instantiated: the
  seeded database of \<open>init_db\<close>, the same after the seeded student has booked faculty
  member 2, that one after a user with the free-text role \<open>visitor\<close> has registered,
  and the booked store with the appointment's status overwritten by \<open>completed\<close>.
\<close>

definition sample_env :: env where
  "sample_env =
     \<lparr>py_int = (\<lambda>t. if t = ''2'' then Some 2 else None),
      generate_password_hash = (\<lambda>salt pw. salt @ ''$'' @ pw),
      check_password_hash = (\<lambda>h pw. h = ''salt$'' @ pw),
      integer_affinity = (\<lambda>t. if t = ''1'' then SqlInt 1 else SqlOther t)\<rparr>"

definition seeded :: store where
  "seeded = init_db sample_env (\<lambda>k. ''salt'') empty_store"

definition booking :: request where
  "booking =
     \<lparr>req_method = POST,
      req_form = [(''faculty_id'', ''2''), (''appointment_date'', ''2024-03-01''),
                  (''start_time'', ''09:00''), (''end_time'', ''10:00''),
                  (''purpose'', ''advising'')]\<rparr>"

definition booked :: store where
  "booked = db (new_appointment sample_env 0 booking (Some 5) seeded)"

definition visitor_form :: request where
  "visitor_form =
     \<lparr>req_method = POST,
      req_form = [(''name'', ''Vera Visitor''), (''email'', ''vera@example.org''),
                  (''password'', ''pw''), (''role'', ''visitor'')]\<rparr>"

definition with_visitor :: store where
  "with_visitor = db (register sample_env ''salt'' visitor_form None booked)"

definition admin_user :: user_row where
  "admin_user =
     \<lparr>user_id = 1, name = ''Admin User'', email = ''admin@university.edu'', role = ''admin'',
      password_hash = ''salt$admin123'', u_department_id = SqlInt 1\<rparr>"

definition dr_johnson :: user_row where
  "dr_johnson =
     \<lparr>user_id = 2, name = ''Dr. Johnson (Computer Science)'', email = ''johnson@wsu.edu'',
      role = ''faculty'', password_hash = ''salt$demo-johnson'', u_department_id = SqlInt 1\<rparr>"

definition dr_lee :: user_row where
  "dr_lee =
     \<lparr>user_id = 3, name = ''Dr. Emily Lee (Mathematics)'', email = ''elee@wsu.edu'',
      role = ''faculty'', password_hash = ''salt$demo-lee'', u_department_id = SqlInt 2\<rparr>"

definition dr_patel :: user_row where
  "dr_patel =
     \<lparr>user_id = 4, name = ''Dr. Patel (Electrical Engineering)'', email = ''patel@wsu.edu'',
      role = ''faculty'', password_hash = ''salt$demo-patel'', u_department_id = SqlInt 3\<rparr>"

definition john_student :: user_row where
  "john_student =
     \<lparr>user_id = 5, name = ''John Student'', email = ''student@university.edu'',
      role = ''student'', password_hash = ''salt$student123'', u_department_id = SqlInt 1\<rparr>"

definition vera_visitor :: user_row where
  "vera_visitor =
     \<lparr>user_id = 6, name = ''Vera Visitor'', email = ''vera@example.org'', role = ''visitor'',
      password_hash = ''salt$pw'', u_department_id = SqlNull\<rparr>"

definition first_booking :: appointment_row where
  "first_booking =
     \<lparr>appointment_id = 1, student_id = 5, faculty_id = 2, appointment_date = ''2024-03-01'',
      start_time = ''09:00'', end_time = ''10:00'', status = ''scheduled'',
      purpose = Some ''advising''\<rparr>"

definition first_notice :: notification_row where
  "first_notice =
     \<lparr>notification_id = 1, n_appointment_id = 1,
      message = ''New appointment on 2024-03-01 at 09:00'', created_at = 0,
      sent_status = ''pending''\<rparr>"

definition dup_form :: request where
  "dup_form =
     \<lparr>req_method = POST,
      req_form = [(''name'', ''Second John''), (''email'', ''student@university.edu''),
                  (''password'', ''other''), (''role'', ''admin'')]\<rparr>"

definition login_form :: "string \<Rightarrow> string \<Rightarrow> request" where
  "login_form em pw = \<lparr>req_method = POST, req_form = [(''email'', em), (''password'', pw)]\<rparr>"

definition slot_form :: "string \<Rightarrow> string \<Rightarrow> string \<Rightarrow> request" where
  "slot_form day start end =
     \<lparr>req_method = POST,
      req_form = [(''day_of_week'', day), (''start_time'', start), (''end_time'', end)]\<rparr>"

definition marked_completed :: store where
  "marked_completed = booked\<lparr>tbl_appointments := [first_booking\<lparr>status := ''completed''\<rparr>]\<rparr>"

section \<open>Lemmas shared by the claims\<close>

lemma current_user_logged_in: "current_user sess s = Some u \<Longrightarrow> sess \<noteq> None"
  by (cases sess) (simp_all add: current_user_def)

lemma login_required_user:
  "current_user sess s = Some u \<Longrightarrow> login_required func sess s = func sess s"
  using current_user_logged_in[of sess s u] by (cases sess) (simp_all add: login_required_def)

lemma current_user_users_eq:
  "tbl_users s' = tbl_users s \<Longrightarrow> current_user sess s' = current_user sess s"
  by (cases sess) (simp_all add: current_user_def)

lemma find_map_id:
  assumes "\<And>x. key (g x) = key x"
  shows "find (\<lambda>a. key a = k) (map g xs) = map_option g (find (\<lambda>a. key a = k) xs)"
  using assms by (induction xs) simp_all

lemma cancel_forbidden:
  assumes "current_user sess s = Some u" "in_int64 aid"
    "find (\<lambda>a. appointment_id a = aid) (tbl_appointments s) = Some a"
    "role u = ''student'' \<and> student_id a \<noteq> user_id u
       \<or> role u = ''faculty'' \<and> faculty_id a \<noteq> user_id u"
  shows "cancel_appointment aid sess s =
           respond (Redirect Ep_appointments)
             [(''You cannot cancel others' appointments.'', ''danger'')] s sess"
  using assms
  by (auto simp: cancel_appointment_def login_required_user cancel_appointment_body_def Let_def)

lemma cancel_allowed:
  assumes "current_user sess s = Some u" "in_int64 aid"
    "find (\<lambda>a. appointment_id a = aid) (tbl_appointments s) = Some a"
    "\<not> (role u = ''student'' \<and> student_id a \<noteq> user_id u)"
    "\<not> (role u = ''faculty'' \<and> faculty_id a \<noteq> user_id u)"
  shows "cancel_appointment aid sess s =
           respond (Redirect Ep_appointments) [(''Appointment cancelled.'', ''info'')]
             (s\<lparr>tbl_appointments :=
                  map (\<lambda>a. if appointment_id a = aid then a\<lparr>status := ''cancelled''\<rparr> else a)
                    (tbl_appointments s)\<rparr>) sess"
  using assms
  by (auto simp: cancel_appointment_def login_required_user cancel_appointment_body_def Let_def)

lemma cancel_comp_idem:
  "(\<lambda>a. if appointment_id a = aid then a\<lparr>status := ''cancelled''\<rparr> else a) \<circ>
   (\<lambda>a. if appointment_id a = aid then a\<lparr>status := ''cancelled''\<rparr> else a)
   = (\<lambda>a. if appointment_id a = aid then a\<lparr>status := ''cancelled''\<rparr> else a)"
  by (rule ext) simp

lemma fold_max_ge: "(a::int) \<le> fold max xs a"
proof (induction xs arbitrary: a)
  case Nil
  then show ?case by simp
next
  case (Cons x xs)
  have "max x a \<le> fold max xs (max x a)" by (rule Cons.IH)
  then show ?case by simp
qed

lemma fold_max_mem_le: "(x::int) \<in> set xs \<Longrightarrow> x \<le> fold max xs a"
proof (induction xs arbitrary: a)
  case Nil
  then show ?case by simp
next
  case (Cons y ys)
  show ?case
  proof (cases "x = y")
    case True
    have "max y a \<le> fold max ys (max y a)" by (rule fold_max_ge)
    then show ?thesis using True by simp
  next
    case False
    then show ?thesis using Cons by simp
  qed
qed

lemma next_id_fresh: "i \<in> set ids \<Longrightarrow> i < next_id ids"
proof (cases ids)
  case Nil
  assume "i \<in> set ids"
  then show ?thesis using Nil by simp
next
  case (Cons j rest)
  assume "i \<in> set ids"
  then have "i = j \<or> i \<in> set rest" using Cons by auto
  then have "i \<le> fold max rest j"
    using fold_max_ge[of j rest] fold_max_mem_le[of i rest j] by auto
  then show ?thesis using Cons by (simp add: next_id_def)
qed

lemma next_id_notin: "next_id ids \<notin> set ids"
  using next_id_fresh[of "next_id ids" ids] by auto

lemma dashboard_catch_all:
  assumes "current_user sess s = Some u" "role u \<noteq> ''student''" "role u \<noteq> ''faculty''"
  shows "dashboard sess s =
           respond (Render (Dashboard_html u (length (tbl_appointments s))
                              (length (tbl_appointments s))
                              (map fst (dept_counts s)) (map snd (dept_counts s)))) [] s sess"
  using assms current_user_logged_in[OF assms(1)]
  by (cases sess) (simp_all add: dashboard_def login_required_def dashboard_body_def Let_def)

lemma appointments_catch_all:
  assumes "current_user sess s = Some u" "role u \<noteq> ''student''" "role u \<noteq> ''faculty''"
  shows "appointments sess s = respond (Render (Appointments_html (tbl_appointments s) u)) [] s sess"
  using assms current_user_logged_in[OF assms(1)]
  by (cases sess) (simp_all add: appointments_def login_required_def appointments_body_def Let_def)

lemma seeded_users:
  "tbl_users seeded = [admin_user, dr_johnson, dr_lee, dr_patel, john_student]"
  by (simp add: seeded_def init_db_def Let_def sample_env_def admin_user_def dr_johnson_def
      dr_lee_def dr_patel_def john_student_def)

lemma seeded_empty_tables:
  "tbl_appointments seeded = []" "tbl_notifications seeded = []" "tbl_availability seeded = []"
  by (simp_all add: seeded_def init_db_def Let_def)

lemma seeded_current_user:
  "current_user (Some 1) seeded = Some admin_user"
  "current_user (Some 2) seeded = Some dr_johnson"
  "current_user (Some 3) seeded = Some dr_lee"
  "current_user (Some 5) seeded = Some john_student"
  by (simp_all add: current_user_def seeded_users admin_user_def dr_johnson_def
      dr_lee_def dr_patel_def john_student_def)

lemma booked_eq:
  "booked = seeded\<lparr>tbl_appointments := [first_booking], tbl_notifications := [first_notice]\<rparr>"
  by (simp add: booked_def new_appointment_def login_required_def new_appointment_body_def
      seeded_current_user seeded_empty_tables john_student_def booking_def sample_env_def
      in_int64_def next_id_def Let_def respond_def first_booking_def first_notice_def)

lemma booked_current_user:
  "current_user (Some 1) booked = Some admin_user"
  "current_user (Some 2) booked = Some dr_johnson"
  "current_user (Some 3) booked = Some dr_lee"
  "current_user (Some 5) booked = Some john_student"
  using seeded_current_user by (simp_all add: current_user_def booked_eq)

lemma booked_find: "find (\<lambda>a. appointment_id a = 1) (tbl_appointments booked) = Some first_booking"
  by (simp add: booked_eq first_booking_def)

lemma with_visitor_eq:
  "with_visitor = booked\<lparr>tbl_users := tbl_users seeded @ [vera_visitor]\<rparr>"
  by (simp add: with_visitor_def register_def visitor_form_def booked_eq seeded_users
      admin_user_def dr_johnson_def dr_lee_def dr_patel_def john_student_def vera_visitor_def
      sample_env_def next_id_def Let_def respond_def)

lemma with_visitor_current_user: "current_user (Some 6) with_visitor = Some vera_visitor"
  by (simp add: current_user_def with_visitor_eq seeded_users
      admin_user_def dr_johnson_def dr_lee_def dr_patel_def john_student_def vera_visitor_def)

lemma booked_dept_counts: "dept_counts booked = [(''Computer Science'', 1)]"
  by (simp add: dept_counts_def dept_join_def booked_eq seeded_users first_booking_def
      admin_user_def dr_johnson_def dr_lee_def dr_patel_def john_student_def Let_def)
    (simp add: seeded_def init_db_def Let_def)

section \<open>Creating an appointment\<close>

lemma new_appointment_success_only:
  assumes "current_user sess s = Some u" and "role u = ''student''"
    and "reply (new_appointment e now req sess s) = Inr (Redirect Ep_appointments)"
  shows "req_method req = POST
       \<and> (\<exists>ftext fid date start end purp.
             map_of (req_form req) ''faculty_id'' = Some ftext
           \<and> py_int e ftext = Some fid \<and> in_int64 fid
           \<and> map_of (req_form req) ''appointment_date'' = Some date
           \<and> map_of (req_form req) ''start_time'' = Some start
           \<and> map_of (req_form req) ''end_time'' = Some end
           \<and> map_of (req_form req) ''purpose'' = Some purp)"
  using assms
  by (auto simp: new_appointment_def login_required_user new_appointment_body_def
      respond_def raise_def Let_def split: option.splits if_splits)

text \<open>
  Claim C1. For a logged-in user whose role is \<open>student\<close>, a create-appointment
  request (POST with faculty id, date, start time, end time and purpose, the faculty id
  readable as a 64-bit integer) succeeds: it appends exactly one Appointment row with that
  student id, that faculty id, those fields and status \<open>scheduled\<close>, under a key no
  earlier row has, and exactly one Notification row that refers to the new appointment and
  has sent status \<open>pending\<close>. Users, departments, availability and the session stay
  as they were. By \<open>new_appointment_success_only\<close> a student's call succeeds on no
  other request.
\<close>

theorem new_appointment_inserts:
  assumes "current_user sess s = Some u" and "role u = ''student''"
    and "req_method req = POST"
    and "map_of (req_form req) ''faculty_id'' = Some ftext"
    and "py_int e ftext = Some fid" and "in_int64 fid"
    and "map_of (req_form req) ''appointment_date'' = Some date"
    and "map_of (req_form req) ''start_time'' = Some start"
    and "map_of (req_form req) ''end_time'' = Some end"
    and "map_of (req_form req) ''purpose'' = Some purp"
  shows "reply (new_appointment e now req sess s) = Inr (Redirect Ep_appointments)
       \<and> flashed (new_appointment e now req sess s) = [(''Appointment created.'', ''success'')]
       \<and> tbl_appointments (db (new_appointment e now req sess s)) =
           tbl_appointments s @
             [\<lparr>appointment_id = next_id (map appointment_id (tbl_appointments s)),
               student_id = user_id u, faculty_id = fid, appointment_date = date,
               start_time = start, end_time = end, status = ''scheduled'',
               purpose = Some purp\<rparr>]
       \<and> next_id (map appointment_id (tbl_appointments s))
           \<notin> set (map appointment_id (tbl_appointments s))
       \<and> tbl_notifications (db (new_appointment e now req sess s)) =
           tbl_notifications s @
             [\<lparr>notification_id = next_id (map notification_id (tbl_notifications s)),
               n_appointment_id = next_id (map appointment_id (tbl_appointments s)),
               message = ''New appointment on '' @ date @ '' at '' @ start,
               created_at = now, sent_status = ''pending''\<rparr>]
       \<and> tbl_users (db (new_appointment e now req sess s)) = tbl_users s
       \<and> tbl_departments (db (new_appointment e now req sess s)) = tbl_departments s
       \<and> tbl_availability (db (new_appointment e now req sess s)) = tbl_availability s
       \<and> sess_out (new_appointment e now req sess s) = sess"
proof -
  have "new_appointment e now req sess s =
      respond (Redirect Ep_appointments) [(''Appointment created.'', ''success'')]
        (s\<lparr>tbl_appointments := tbl_appointments s @
             [\<lparr>appointment_id = next_id (map appointment_id (tbl_appointments s)),
               student_id = user_id u, faculty_id = fid, appointment_date = date,
               start_time = start, end_time = end, status = ''scheduled'',
               purpose = Some purp\<rparr>],
            tbl_notifications := tbl_notifications s @
             [\<lparr>notification_id = next_id (map notification_id (tbl_notifications s)),
               n_appointment_id = next_id (map appointment_id (tbl_appointments s)),
               message = ''New appointment on '' @ date @ '' at '' @ start,
               created_at = now, sent_status = ''pending''\<rparr>]\<rparr>) sess"
    using assms
    by (simp add: new_appointment_def login_required_user new_appointment_body_def Let_def)
  then show ?thesis
    using next_id_notin[of "map appointment_id (tbl_appointments s)"]
    by (simp add: respond_def)
qed

theorem new_appointment_inserts_witness:
  "current_user (Some 5) seeded = Some john_student \<and> role john_student = ''student''
   \<and> py_int sample_env ''2'' = Some 2 \<and> in_int64 2
   \<and> reply (new_appointment sample_env 0 booking (Some 5) seeded) = Inr (Redirect Ep_appointments)
   \<and> tbl_appointments (db (new_appointment sample_env 0 booking (Some 5) seeded)) =
        [\<lparr>appointment_id = 1, student_id = 5, faculty_id = 2, appointment_date = ''2024-03-01'',
          start_time = ''09:00'', end_time = ''10:00'', status = ''scheduled'',
          purpose = Some ''advising''\<rparr>]
   \<and> tbl_notifications (db (new_appointment sample_env 0 booking (Some 5) seeded)) =
        [\<lparr>notification_id = 1, n_appointment_id = 1,
          message = ''New appointment on 2024-03-01 at 09:00'', created_at = 0,
          sent_status = ''pending''\<rparr>]
   \<and> tbl_users (db (new_appointment sample_env 0 booking (Some 5) seeded)) = tbl_users seeded"
proof -
  have u: "current_user (Some 5) seeded = Some john_student" by (rule seeded_current_user)
  have r: "role john_student = ''student''" by (simp add: john_student_def)
  have m: "req_method booking = POST" by (simp add: booking_def)
  have f1: "map_of (req_form booking) ''faculty_id'' = Some ''2''" by (simp add: booking_def)
  have p: "py_int sample_env ''2'' = Some 2" by (simp add: sample_env_def)
  have i: "in_int64 2" by (simp add: in_int64_def)
  have f2: "map_of (req_form booking) ''appointment_date'' = Some ''2024-03-01''"
    by (simp add: booking_def)
  have f3: "map_of (req_form booking) ''start_time'' = Some ''09:00''" by (simp add: booking_def)
  have f4: "map_of (req_form booking) ''end_time'' = Some ''10:00''" by (simp add: booking_def)
  have f5: "map_of (req_form booking) ''purpose'' = Some ''advising''" by (simp add: booking_def)
  from new_appointment_inserts[OF u r m f1 p i f2 f3 f4 f5, of 0]
  show ?thesis
    using u r p i by (simp add: seeded_empty_tables next_id_def john_student_def)
qed

section \<open>Who may cancel\<close>

text \<open>
  Claim C2. Let the logged-in user be \<open>u\<close> and \<open>a\<close> the appointment stored
  under the requested id. If \<open>u\<close> is a student and \<open>a\<close> is not theirs as student,
  or \<open>u\<close> is faculty and \<open>a\<close> is not theirs as faculty, the cancellation is refused
  with the message that others' appointments cannot be cancelled, and the whole store,
  \<open>a\<close> included, is unchanged. If \<open>u\<close> is an admin the cancellation goes through:
  the reply is the success redirect and \<open>a\<close> is stored with status \<open>cancelled\<close>.
\<close>

theorem cancel_ownership:
  assumes "current_user sess s = Some u" and "in_int64 aid"
    and "find (\<lambda>a. appointment_id a = aid) (tbl_appointments s) = Some a"
  shows "(role u = ''student'' \<and> student_id a \<noteq> user_id u
            \<or> role u = ''faculty'' \<and> faculty_id a \<noteq> user_id u
          \<longrightarrow> reply (cancel_appointment aid sess s) = Inr (Redirect Ep_appointments)
            \<and> flashed (cancel_appointment aid sess s) =
                [(''You cannot cancel others' appointments.'', ''danger'')]
            \<and> db (cancel_appointment aid sess s) = s
            \<and> find (\<lambda>a. appointment_id a = aid)
                 (tbl_appointments (db (cancel_appointment aid sess s))) = Some a)
       \<and> (role u = ''admin''
          \<longrightarrow> reply (cancel_appointment aid sess s) = Inr (Redirect Ep_appointments)
            \<and> flashed (cancel_appointment aid sess s) = [(''Appointment cancelled.'', ''info'')]
            \<and> find (\<lambda>a. appointment_id a = aid)
                 (tbl_appointments (db (cancel_appointment aid sess s)))
                = Some (a\<lparr>status := ''cancelled''\<rparr>))"
proof (intro conjI impI)
  assume f: "role u = ''student'' \<and> student_id a \<noteq> user_id u
            \<or> role u = ''faculty'' \<and> faculty_id a \<noteq> user_id u"
  note eq = cancel_forbidden[OF assms f]
  show "reply (cancel_appointment aid sess s) = Inr (Redirect Ep_appointments)"
    by (simp add: eq respond_def)
  show "flashed (cancel_appointment aid sess s) =
                [(''You cannot cancel others' appointments.'', ''danger'')]"
    by (simp add: eq respond_def)
  show "db (cancel_appointment aid sess s) = s" by (simp add: eq respond_def)
  show "find (\<lambda>a. appointment_id a = aid)
                 (tbl_appointments (db (cancel_appointment aid sess s))) = Some a"
    by (simp add: eq respond_def assms(3))
next
  assume adm: "role u = ''admin''"
  have eq: "cancel_appointment aid sess s =
           respond (Redirect Ep_appointments) [(''Appointment cancelled.'', ''info'')]
             (s\<lparr>tbl_appointments :=
                  map (\<lambda>a. if appointment_id a = aid then a\<lparr>status := ''cancelled''\<rparr> else a)
                    (tbl_appointments s)\<rparr>) sess"
    using adm by (intro cancel_allowed[OF assms]) simp_all
  show "reply (cancel_appointment aid sess s) = Inr (Redirect Ep_appointments)"
    by (simp add: eq respond_def)
  show "flashed (cancel_appointment aid sess s) = [(''Appointment cancelled.'', ''info'')]"
    by (simp add: eq respond_def)
  have "find (\<lambda>a. appointment_id a = aid)
          (map (\<lambda>a. if appointment_id a = aid then a\<lparr>status := ''cancelled''\<rparr> else a)
             (tbl_appointments s))
        = map_option (\<lambda>a. if appointment_id a = aid then a\<lparr>status := ''cancelled''\<rparr> else a)
            (find (\<lambda>a. appointment_id a = aid) (tbl_appointments s))"
    by (rule find_map_id) simp
  moreover have "appointment_id a = aid"
    using assms(3) by (auto simp: find_Some_iff)
  ultimately show "find (\<lambda>a. appointment_id a = aid)
                 (tbl_appointments (db (cancel_appointment aid sess s)))
                = Some (a\<lparr>status := ''cancelled''\<rparr>)"
    by (simp add: eq respond_def assms(3))
qed

theorem cancel_ownership_witness:
  "current_user (Some 3) booked = Some dr_lee \<and> role dr_lee = ''faculty''
   \<and> faculty_id first_booking = 2 \<and> user_id dr_lee = 3
   \<and> reply (cancel_appointment 1 (Some 3) booked) = Inr (Redirect Ep_appointments)
   \<and> flashed (cancel_appointment 1 (Some 3) booked) =
        [(''You cannot cancel others' appointments.'', ''danger'')]
   \<and> db (cancel_appointment 1 (Some 3) booked) = booked
   \<and> current_user (Some 1) booked = Some admin_user \<and> role admin_user = ''admin''
   \<and> flashed (cancel_appointment 1 (Some 1) booked) = [(''Appointment cancelled.'', ''info'')]
   \<and> find (\<lambda>a. appointment_id a = 1) (tbl_appointments (db (cancel_appointment 1 (Some 1) booked)))
        = Some (first_booking\<lparr>status := ''cancelled''\<rparr>)"
proof -
  have i: "in_int64 1" by (simp add: in_int64_def)
  have lee: "current_user (Some 3) booked = Some dr_lee" by (rule booked_current_user)
  have adm: "current_user (Some 1) booked = Some admin_user" by (rule booked_current_user)
  have facts: "role dr_lee = ''faculty''" "faculty_id first_booking = 2" "user_id dr_lee = 3"
    "role admin_user = ''admin''"
    by (simp_all add: dr_lee_def first_booking_def admin_user_def)
  from cancel_ownership[OF lee i booked_find] cancel_ownership[OF adm i booked_find]
  show ?thesis
    using lee adm facts by simp
qed

section \<open>Appointment status over every run\<close>

lemma appts_register: "tbl_appointments (db (register e salt req sess s)) = tbl_appointments s"
  by (simp add: register_def respond_def raise_def Let_def split: option.splits)

lemma appts_login: "tbl_appointments (db (login e req sess s)) = tbl_appointments s"
  by (simp add: login_def respond_def raise_def split: option.splits)

lemma appts_logout: "tbl_appointments (db (logout sess s)) = tbl_appointments s"
  by (simp add: logout_def respond_def)

lemma appts_index: "tbl_appointments (db (index sess s)) = tbl_appointments s"
  by (simp add: index_def respond_def)

lemma appts_dashboard: "tbl_appointments (db (dashboard sess s)) = tbl_appointments s"
  by (simp add: dashboard_def login_required_def dashboard_body_def respond_def raise_def Let_def
      split: option.splits)

lemma appts_appointments: "tbl_appointments (db (appointments sess s)) = tbl_appointments s"
  by (simp add: appointments_def login_required_def appointments_body_def respond_def raise_def
      Let_def split: option.splits)

lemma appts_availability: "tbl_appointments (db (availability req sess s)) = tbl_appointments s"
  by (simp add: availability_def login_required_def availability_body_def respond_def raise_def
      Let_def split: option.splits)

lemma appts_departments: "tbl_appointments (db (departments req sess s)) = tbl_appointments s"
  by (simp add: departments_def login_required_def departments_body_def respond_def raise_def
      Let_def split: option.splits)

lemma appts_new_appointment:
  "tbl_appointments (db (new_appointment e now req sess s)) = tbl_appointments s
   \<or> (\<exists>a. tbl_appointments (db (new_appointment e now req sess s)) = tbl_appointments s @ [a]
          \<and> status a = ''scheduled''
          \<and> appointment_id a = next_id (map appointment_id (tbl_appointments s)))"
  by (simp add: new_appointment_def login_required_def new_appointment_body_def respond_def
      raise_def Let_def split: option.splits)

lemma appts_cancel_appointment:
  "tbl_appointments (db (cancel_appointment aid sess s)) = tbl_appointments s
   \<or> tbl_appointments (db (cancel_appointment aid sess s)) =
       map (\<lambda>a. if appointment_id a = aid then a\<lparr>status := ''cancelled''\<rparr> else a)
         (tbl_appointments s)"
  by (simp add: cancel_appointment_def login_required_def cancel_appointment_body_def respond_def
      raise_def Let_def split: option.splits)

lemma appts_handle:
  "tbl_appointments (db (handle e ev sess s)) = tbl_appointments s
   \<or> (\<exists>a. tbl_appointments (db (handle e ev sess s)) = tbl_appointments s @ [a]
          \<and> status a = ''scheduled''
          \<and> appointment_id a = next_id (map appointment_id (tbl_appointments s)))
   \<or> (\<exists>aid. tbl_appointments (db (handle e ev sess s)) =
         map (\<lambda>a. if appointment_id a = aid then a\<lparr>status := ''cancelled''\<rparr> else a)
           (tbl_appointments s))"
proof (cases ev)
  case (Ev_new_appointment now req)
  then show ?thesis using appts_new_appointment[of e now req sess s] by auto
next
  case (Ev_cancel_appointment aid)
  then show ?thesis using appts_cancel_appointment[of aid sess s] by auto
qed (simp_all add: appts_register appts_login appts_logout appts_index appts_dashboard
       appts_appointments appts_availability appts_departments)

lemma appts_step_rows:
  assumes "a' \<in> set (tbl_appointments (db (handle e ev sess s)))"
  shows "a' \<in> set (tbl_appointments s)
       \<or> (status a' = ''scheduled''
            \<and> appointment_id a' \<notin> appointment_id ` set (tbl_appointments s))
       \<or> (\<exists>a \<in> set (tbl_appointments s). a' = a\<lparr>status := ''cancelled''\<rparr>)"
proof -
  consider
    (same) "tbl_appointments (db (handle e ev sess s)) = tbl_appointments s"
  | (new) a where "tbl_appointments (db (handle e ev sess s)) = tbl_appointments s @ [a]"
      "status a = ''scheduled''"
      "appointment_id a = next_id (map appointment_id (tbl_appointments s))"
  | (cancel) aid where "tbl_appointments (db (handle e ev sess s)) =
         map (\<lambda>a. if appointment_id a = aid then a\<lparr>status := ''cancelled''\<rparr> else a)
           (tbl_appointments s)"
    using appts_handle[of e ev sess s] by blast
  then show ?thesis
  proof cases
    case same
    then show ?thesis using assms by simp
  next
    case new
    have "next_id (map appointment_id (tbl_appointments s))
            \<notin> set (map appointment_id (tbl_appointments s))"
      by (rule next_id_notin)
    then have "appointment_id a \<notin> appointment_id ` set (tbl_appointments s)"
      using new(3) by simp
    moreover have "a' \<in> set (tbl_appointments s) \<or> a' = a"
      using assms new(1) by auto
    ultimately show ?thesis using new(2) by blast
  next
    case cancel
    then show ?thesis using assms by auto
  qed
qed

lemma reachable_status:
  assumes "reachable e s" and "a \<in> set (tbl_appointments s)"
  shows "status a = ''scheduled'' \<or> status a = ''cancelled''"
  using assms
proof (induction arbitrary: a rule: reachable.induct)
  case start
  then show ?case by (simp add: empty_store_def)
next
  case (http s ev sess)
  from appts_step_rows[OF http.prems] show ?case
    using http.IH by auto
next
  case (cli s salts)
  then show ?case by (simp add: init_db_def Let_def)
qed

text \<open>
  Claim C3. In every store reachable from the empty store by any sequence of handler
  calls (with any session) and \<open>init_db\<close> runs, each Appointment row has status
  \<open>scheduled\<close> or \<open>cancelled\<close>, never \<open>completed\<close>. Moreover, for any store
  at all, each Appointment row after one handler call is a row that was there before, or a
  new row with status \<open>scheduled\<close> under a fresh key, or an earlier row whose status
  was set to \<open>cancelled\<close>; and \<open>init_db\<close> leaves no appointment.
\<close>

theorem status_scheduled_or_cancelled:
  "(reachable e s \<longrightarrow>
      (\<forall>a \<in> set (tbl_appointments s).
         (status a = ''scheduled'' \<or> status a = ''cancelled'') \<and> status a \<noteq> ''completed''))
   \<and> (\<forall>a' \<in> set (tbl_appointments (db (handle e ev sess t))).
         a' \<in> set (tbl_appointments t)
       \<or> (status a' = ''scheduled''
            \<and> appointment_id a' \<notin> appointment_id ` set (tbl_appointments t))
       \<or> (\<exists>a \<in> set (tbl_appointments t). a' = a\<lparr>status := ''cancelled''\<rparr>))
   \<and> tbl_appointments (init_db e salts t) = []"
proof (intro conjI impI ballI)
  fix a
  assume "reachable e s" "a \<in> set (tbl_appointments s)"
  then have st: "status a = ''scheduled'' \<or> status a = ''cancelled''"
    by (rule reachable_status)
  then show "status a = ''scheduled'' \<or> status a = ''cancelled''" .
  from st show "status a \<noteq> ''completed''" by auto
next
  fix a'
  assume "a' \<in> set (tbl_appointments (db (handle e ev sess t)))"
  then show "a' \<in> set (tbl_appointments t)
       \<or> (status a' = ''scheduled''
            \<and> appointment_id a' \<notin> appointment_id ` set (tbl_appointments t))
       \<or> (\<exists>a \<in> set (tbl_appointments t). a' = a\<lparr>status := ''cancelled''\<rparr>)"
    by (rule appts_step_rows)
next
  show "tbl_appointments (init_db e salts t) = []"
    by (simp add: init_db_def Let_def)
qed

theorem status_scheduled_or_cancelled_witness:
  "reachable sample_env booked
   \<and> first_booking \<in> set (tbl_appointments booked)
   \<and> (status first_booking = ''scheduled'' \<or> status first_booking = ''cancelled'')
   \<and> first_booking\<lparr>status := ''cancelled''\<rparr>
        \<in> set (tbl_appointments (db (handle sample_env (Ev_cancel_appointment 1) (Some 5) booked)))
   \<and> tbl_appointments (init_db sample_env (\<lambda>k. ''salt'') booked) = []"
proof -
  have "reachable sample_env (init_db sample_env (\<lambda>k. ''salt'') empty_store)"
    by (rule reachable.cli, rule reachable.start)
  then have "reachable sample_env seeded" by (simp add: seeded_def)
  then have "reachable sample_env
                (db (handle sample_env (Ev_new_appointment 0 booking) (Some 5) seeded))"
    by (rule reachable.http)
  then have re: "reachable sample_env booked" by (simp add: booked_def)
  have mem: "first_booking \<in> set (tbl_appointments booked)" by (simp add: booked_eq)
  have i: "in_int64 1" by (simp add: in_int64_def)
  have "cancel_appointment 1 (Some 5) booked =
           respond (Redirect Ep_appointments) [(''Appointment cancelled.'', ''info'')]
             (booked\<lparr>tbl_appointments :=
                  map (\<lambda>a. if appointment_id a = 1 then a\<lparr>status := ''cancelled''\<rparr> else a)
                    (tbl_appointments booked)\<rparr>) (Some 5)"
    by (rule cancel_allowed[OF booked_current_user(4) i booked_find])
      (simp_all add: john_student_def first_booking_def)
  then have mem2: "first_booking\<lparr>status := ''cancelled''\<rparr>
        \<in> set (tbl_appointments (db (handle sample_env (Ev_cancel_appointment 1) (Some 5) booked)))"
    by (simp add: respond_def booked_eq first_booking_def)
  from status_scheduled_or_cancelled[of sample_env booked "Ev_cancel_appointment 1" "Some 5"
      booked "\<lambda>k. ''salt''"]
  show ?thesis
    using re mem mem2 by blast
qed

section \<open>Registering a known email\<close>

text \<open>
  Claim C4. A registration request (POST with name, email, password and role) whose email
  is the email of some stored user is answered with the message that the email is already
  registered and a redirect back to registration; the store, and with it the list of User
  rows, is unchanged.
\<close>

theorem register_duplicate_email:
  assumes "req_method req = POST"
    and "map_of (req_form req) ''name'' = Some nm"
    and "map_of (req_form req) ''email'' = Some em"
    and "map_of (req_form req) ''password'' = Some pw"
    and "map_of (req_form req) ''role'' = Some rl"
    and "u \<in> set (tbl_users s)" and "email u = em"
  shows "reply (register e salt req sess s) = Inr (Redirect Ep_register)
       \<and> flashed (register e salt req sess s) = [(''Email already registered.'', ''danger'')]
       \<and> db (register e salt req sess s) = s
       \<and> tbl_users (db (register e salt req sess s)) = tbl_users s
       \<and> sess_out (register e salt req sess s) = sess"
proof -
  have "find (\<lambda>u. email u = em) (tbl_users s) \<noteq> None"
    using assms(6,7) by (auto simp: find_None_iff)
  then have "register e salt req sess s =
      respond (Redirect Ep_register) [(''Email already registered.'', ''danger'')] s sess"
    using assms(1-5) by (simp add: register_def)
  then show ?thesis by (simp add: respond_def)
qed

theorem register_duplicate_email_witness:
  "john_student \<in> set (tbl_users seeded) \<and> email john_student = ''student@university.edu''
   \<and> reply (register sample_env ''pepper'' dup_form None seeded) = Inr (Redirect Ep_register)
   \<and> flashed (register sample_env ''pepper'' dup_form None seeded) =
        [(''Email already registered.'', ''danger'')]
   \<and> tbl_users (db (register sample_env ''pepper'' dup_form None seeded)) =
        [admin_user, dr_johnson, dr_lee, dr_patel, john_student]"
proof -
  have m: "req_method dup_form = POST" by (simp add: dup_form_def)
  have f1: "map_of (req_form dup_form) ''name'' = Some ''Second John''" by (simp add: dup_form_def)
  have f2: "map_of (req_form dup_form) ''email'' = Some ''student@university.edu''"
    by (simp add: dup_form_def)
  have f3: "map_of (req_form dup_form) ''password'' = Some ''other''" by (simp add: dup_form_def)
  have f4: "map_of (req_form dup_form) ''role'' = Some ''admin''" by (simp add: dup_form_def)
  have u: "john_student \<in> set (tbl_users seeded)" by (simp add: seeded_users)
  have em: "email john_student = ''student@university.edu''" by (simp add: john_student_def)
  from register_duplicate_email[OF m f1 f2 f3 f4 u em, of sample_env "''pepper''" None]
  show ?thesis using u em by (simp add: seeded_users)
qed

section \<open>Logging in\<close>

text \<open>
  Claim C5. A login request whose email matches no user, or matches a user whose stored
  hash fails the check against the given password, is answered with the invalid-credentials
  message on the login page; the session and the store are unchanged, so a session without
  user id stays without one. A request whose email finds a user and whose password passes
  the check binds the session to that user's id. Whenever login changes the session at all,
  it was such a request.
\<close>

theorem login_invalid_credentials:
  "(req_method req = POST \<and> map_of (req_form req) ''email'' = Some em
      \<and> map_of (req_form req) ''password'' = Some pw
      \<and> (find (\<lambda>u. email u = em) (tbl_users s) = None
         \<or> (\<exists>u. find (\<lambda>u. email u = em) (tbl_users s) = Some u
                \<and> \<not> check_password_hash e (password_hash u) pw))
     \<longrightarrow> reply (login e req sess s) = Inr (Render Login_html)
       \<and> flashed (login e req sess s) = [(''Invalid email or password.'', ''danger'')]
       \<and> sess_out (login e req sess s) = sess
       \<and> (sess = None \<longrightarrow> sess_out (login e req sess s) = None)
       \<and> db (login e req sess s) = s)
   \<and> (req_method req = POST \<and> map_of (req_form req) ''email'' = Some em
      \<and> map_of (req_form req) ''password'' = Some pw
      \<and> find (\<lambda>u. email u = em) (tbl_users s) = Some u
      \<and> check_password_hash e (password_hash u) pw
     \<longrightarrow> reply (login e req sess s) = Inr (Redirect Ep_dashboard)
       \<and> sess_out (login e req sess s) = Some (user_id u))
   \<and> (sess_out (login e req sess s) \<noteq> sess
     \<longrightarrow> (\<exists>em' pw' u'. req_method req = POST
           \<and> map_of (req_form req) ''email'' = Some em'
           \<and> map_of (req_form req) ''password'' = Some pw'
           \<and> find (\<lambda>u. email u = em') (tbl_users s) = Some u'
           \<and> check_password_hash e (password_hash u') pw'
           \<and> sess_out (login e req sess s) = Some (user_id u')))"
  by (auto simp: login_def respond_def raise_def split: option.splits)

theorem login_invalid_credentials_witness:
  "find (\<lambda>u. email u = ''student@university.edu'') (tbl_users seeded) = Some john_student
   \<and> check_password_hash sample_env (password_hash john_student) ''student123''
   \<and> reply (login sample_env (login_form ''student@university.edu'' ''guess'') None seeded)
        = Inr (Render Login_html)
   \<and> flashed (login sample_env (login_form ''student@university.edu'' ''guess'') None seeded)
        = [(''Invalid email or password.'', ''danger'')]
   \<and> sess_out (login sample_env (login_form ''student@university.edu'' ''guess'') None seeded)
        = None
   \<and> find (\<lambda>u. email u = ''nobody@university.edu'') (tbl_users seeded) = None
   \<and> sess_out (login sample_env (login_form ''nobody@university.edu'' ''student123'') None seeded)
        = None
   \<and> sess_out (login sample_env (login_form ''student@university.edu'' ''student123'') None seeded)
        = Some 5"
proof -
  have fs: "find (\<lambda>u. email u = ''student@university.edu'') (tbl_users seeded) = Some john_student"
    by (simp add: seeded_users admin_user_def dr_johnson_def dr_lee_def dr_patel_def
        john_student_def)
  have fn: "find (\<lambda>u. email u = ''nobody@university.edu'') (tbl_users seeded) = None"
    by (simp add: seeded_users admin_user_def dr_johnson_def dr_lee_def dr_patel_def
        john_student_def)
  have ok: "check_password_hash sample_env (password_hash john_student) ''student123''"
    and bad: "\<not> check_password_hash sample_env (password_hash john_student) ''guess''"
    and uid: "user_id john_student = 5"
    by (simp_all add: sample_env_def john_student_def)
  have form: "req_method (login_form em pw) = POST"
    "map_of (req_form (login_form em pw)) ''email'' = Some em"
    "map_of (req_form (login_form em pw)) ''password'' = Some pw" for em pw
    by (simp_all add: login_form_def)
  have wrong:
    "reply (login sample_env (login_form ''student@university.edu'' ''guess'') None seeded)
        = Inr (Render Login_html)
     \<and> flashed (login sample_env (login_form ''student@university.edu'' ''guess'') None seeded)
        = [(''Invalid email or password.'', ''danger'')]
     \<and> sess_out (login sample_env (login_form ''student@university.edu'' ''guess'') None seeded)
        = None"
    using login_invalid_credentials[of "login_form ''student@university.edu'' ''guess''"
         "''student@university.edu''" "''guess''" seeded sample_env None john_student,
         THEN conjunct1] fs bad
    by (simp add: form)
  have unknown:
    "sess_out (login sample_env (login_form ''nobody@university.edu'' ''student123'') None seeded)
        = None"
    using login_invalid_credentials[of "login_form ''nobody@university.edu'' ''student123''"
         "''nobody@university.edu''" "''student123''" seeded sample_env None john_student,
         THEN conjunct1] fn
    by (simp add: form)
  have right:
    "sess_out (login sample_env (login_form ''student@university.edu'' ''student123'') None seeded)
        = Some 5"
    using login_invalid_credentials[of "login_form ''student@university.edu'' ''student123''"
         "''student@university.edu''" "''student123''" seeded sample_env None john_student,
         THEN conjunct2, THEN conjunct1] fs ok uid
    by (simp add: form)
  show ?thesis
    using fs fn ok wrong unknown right by simp
qed

section \<open>Dashboard of an admin\<close>

text \<open>
  Claim C6. For a logged-in user whose role is \<open>admin\<close>, in any store, the dashboard's
  \<open>my_appointments\<close> equals \<open>total_appointments\<close>, the number of all Appointment
  rows.
\<close>

theorem dashboard_admin_total:
  assumes "current_user sess s = Some u" and "role u = ''admin''"
  shows "reply (dashboard sess s) =
           Inr (Render (Dashboard_html u (length (tbl_appointments s))
                          (length (tbl_appointments s))
                          (map fst (dept_counts s)) (map snd (dept_counts s))))"
  using dashboard_catch_all[OF assms(1)] assms(2) by (simp add: respond_def)

theorem dashboard_admin_total_witness:
  "current_user (Some 1) booked = Some admin_user \<and> role admin_user = ''admin''
   \<and> reply (dashboard (Some 1) booked) =
        Inr (Render (Dashboard_html admin_user 1 1 [''Computer Science''] [1]))"
proof -
  have u: "current_user (Some 1) booked = Some admin_user" by (rule booked_current_user)
  have r: "role admin_user = ''admin''" by (simp add: admin_user_def)
  have l: "length (tbl_appointments booked) = 1" by (simp add: booked_eq)
  from dashboard_admin_total[OF u r]
  show ?thesis using u r by (simp add: booked_dept_counts l)
qed

section \<open>Appointments per department\<close>

lemma sum_list_swap:
  "(\<Sum>x\<leftarrow>xs. \<Sum>y\<leftarrow>ys. f x y) = (\<Sum>y\<leftarrow>ys. \<Sum>x\<leftarrow>xs. (f x y :: nat))"
  by (induction xs) (simp_all add: sum_list_addf)

lemma sum_list_indicator:
  "(\<Sum>x\<leftarrow>xs. if P x then 1 else 0) = length (filter P xs)"
  by (induction xs) simp_all

lemma length_filter_key_le_1:
  "distinct (map key xs) \<Longrightarrow> length (filter (\<lambda>x. key x = k) xs) \<le> 1"
proof (induction xs)
  case Nil
  then show ?case by simp
next
  case (Cons x xs)
  show ?case
  proof (cases "key x = k")
    case True
    then have "\<forall>y \<in> set xs. key y \<noteq> k" using Cons.prems by (force simp: image_iff)
    then have "filter (\<lambda>x. key x = k) xs = []" by (simp add: filter_empty_conv)
    then show ?thesis using True by simp
  next
    case False
    then show ?thesis using Cons by simp
  qed
qed

lemma sum_indicator_key_le:
  assumes "distinct (map key xs)"
  shows "(\<Sum>x\<leftarrow>xs. if k = key x \<and> Q then 1 else 0) \<le> (if Q then 1 else (0::nat))"
proof (cases Q)
  case True
  have "(\<Sum>x\<leftarrow>xs. if k = key x \<and> Q then 1 else (0::nat)) = (\<Sum>x\<leftarrow>xs. if key x = k then 1 else 0)"
    using True by (simp add: eq_commute[of k])
  also have "\<dots> = length (filter (\<lambda>x. key x = k) xs)" by (rule sum_list_indicator)
  also have "\<dots> \<le> 1" by (rule length_filter_key_le_1[OF assms])
  finally show ?thesis using True by simp
next
  case False
  then show ?thesis by simp
qed

lemma sum_list_le_length:
  "(\<And>x. x \<in> set xs \<Longrightarrow> g x \<le> (1::nat)) \<Longrightarrow> (\<Sum>x\<leftarrow>xs. g x) \<le> length xs"
proof (induction xs)
  case Nil
  then show ?case by simp
next
  case (Cons a xs)
  have "g a \<le> 1" by (rule Cons.prems) simp
  moreover have "(\<Sum>x\<leftarrow>xs. g x) \<le> length xs" by (rule Cons.IH, rule Cons.prems, simp)
  ultimately show ?case by simp
qed

lemma length_dept_join:
  "length (dept_join s) =
     (\<Sum>d\<leftarrow>tbl_departments s. \<Sum>u\<leftarrow>tbl_users s. \<Sum>a\<leftarrow>tbl_appointments s.
        if u_department_id u = SqlInt (department_id d) \<and> faculty_id a = user_id u
        then 1 else 0)"
proof -
  have inner: "length (concat (map (\<lambda>a. if faculty_id a = user_id u then [(d, u, a)] else []) as))
      = (\<Sum>a\<leftarrow>as. if faculty_id a = user_id u then 1 else 0)" for d :: department_row and u :: user_row and as :: "appointment_row list"
    by (induction as) simp_all
  have mid: "length (concat (map (\<lambda>u. if u_department_id u = SqlInt (department_id d)
         then concat (map (\<lambda>a. if faculty_id a = user_id u then [(d, u, a)] else []) as) else []) us))
      = (\<Sum>u\<leftarrow>us. \<Sum>a\<leftarrow>as.
          if u_department_id u = SqlInt (department_id d) \<and> faculty_id a = user_id u
          then 1 else 0)"
    for d :: department_row and us :: "user_row list" and as :: "appointment_row list"
    by (induction us) (simp_all add: inner)
  have outer: "length (concat (map (\<lambda>d. concat (map (\<lambda>u. if u_department_id u = SqlInt (department_id d)
         then concat (map (\<lambda>a. if faculty_id a = user_id u then [(d, u, a)] else []) as) else []) us)) ds))
      = (\<Sum>d\<leftarrow>ds. \<Sum>u\<leftarrow>us. \<Sum>a\<leftarrow>as.
          if u_department_id u = SqlInt (department_id d) \<and> faculty_id a = user_id u
          then 1 else 0)"
    for ds :: "department_row list" and us :: "user_row list" and as :: "appointment_row list"
    by (induction ds) (simp_all add: mid)
  show ?thesis
    unfolding dept_join_def by (rule outer)
qed

lemma length_dept_join_le:
  assumes "distinct (map department_id (tbl_departments s))"
    and "distinct (map user_id (tbl_users s))"
  shows "length (dept_join s) \<le> length (tbl_appointments s)"
proof -
  let ?c = "\<lambda>d u a. if u_department_id u = SqlInt (department_id d) \<and> faculty_id a = user_id u
                     then 1 else (0::nat)"
  have "length (dept_join s) =
      (\<Sum>d\<leftarrow>tbl_departments s. \<Sum>u\<leftarrow>tbl_users s. \<Sum>a\<leftarrow>tbl_appointments s. ?c d u a)"
    by (rule length_dept_join)
  also have "\<dots> = (\<Sum>d\<leftarrow>tbl_departments s. \<Sum>a\<leftarrow>tbl_appointments s. \<Sum>u\<leftarrow>tbl_users s. ?c d u a)"
    by (simp only: sum_list_swap[of _ "tbl_users s" "tbl_appointments s"])
  also have "\<dots> = (\<Sum>a\<leftarrow>tbl_appointments s. \<Sum>d\<leftarrow>tbl_departments s. \<Sum>u\<leftarrow>tbl_users s. ?c d u a)"
    by (rule sum_list_swap)
  also have "\<dots> = (\<Sum>a\<leftarrow>tbl_appointments s. \<Sum>u\<leftarrow>tbl_users s. \<Sum>d\<leftarrow>tbl_departments s. ?c d u a)"
    by (simp only: sum_list_swap[of _ "tbl_departments s" "tbl_users s"])
  also have "\<dots> \<le> length (tbl_appointments s)"
  proof (rule sum_list_le_length)
    fix a :: appointment_row
    have d_le: "(\<Sum>d\<leftarrow>tbl_departments s. ?c d u a) \<le> (if faculty_id a = user_id u then 1 else 0)"
      for u :: user_row
    proof (cases "u_department_id u")
      case (SqlInt k)
      have "(\<Sum>d\<leftarrow>tbl_departments s. ?c d u a) =
            (\<Sum>d\<leftarrow>tbl_departments s. if k = department_id d \<and> faculty_id a = user_id u then 1 else 0)"
        using SqlInt by simp
      also have "\<dots> \<le> (if faculty_id a = user_id u then 1 else 0)"
        by (rule sum_indicator_key_le[OF assms(1)])
      finally show ?thesis .
    qed simp_all
    have "(\<Sum>u\<leftarrow>tbl_users s. \<Sum>d\<leftarrow>tbl_departments s. ?c d u a)
        \<le> (\<Sum>u\<leftarrow>tbl_users s. if user_id u = faculty_id a then 1 else 0)"
      by (rule sum_list_mono) (use d_le in \<open>simp add: eq_commute\<close>)
    also have "\<dots> = length (filter (\<lambda>u. user_id u = faculty_id a) (tbl_users s))"
      by (rule sum_list_indicator)
    also have "\<dots> \<le> 1"
      by (rule length_filter_key_le_1[OF assms(2)])
    finally show "(\<Sum>u\<leftarrow>tbl_users s. \<Sum>d\<leftarrow>tbl_departments s. ?c d u a) \<le> 1" .
  qed
  finally show ?thesis .
qed

lemma sum_list_group_counts:
  assumes "distinct ns" and "f ` set rows \<subseteq> set ns"
  shows "(\<Sum>n\<leftarrow>ns. length (filter (\<lambda>r. f r = n) rows)) = length rows"
  using assms(2)
proof (induction rows)
  case Nil
  then show ?case by simp
next
  case (Cons r rs)
  have "(\<Sum>n\<leftarrow>ns. length (filter (\<lambda>x. f x = n) (r # rs)))
      = (\<Sum>n\<leftarrow>ns. (if f r = n then 1 else 0) + length (filter (\<lambda>x. f x = n) rs))"
    by (intro arg_cong[where f = sum_list] map_cong) simp_all
  also have "\<dots> = (\<Sum>n\<leftarrow>ns. if f r = n then 1 else 0) + (\<Sum>n\<leftarrow>ns. length (filter (\<lambda>x. f x = n) rs))"
    by (rule sum_list_addf)
  also have "(\<Sum>n\<leftarrow>ns. if f r = n then 1 else 0) = length (filter (\<lambda>n. f r = n) ns)"
    by (rule sum_list_indicator)
  also have "length (filter (\<lambda>n. f r = n) ns) = 1"
  proof -
    have "f r \<in> set ns" using Cons.prems by simp
    then have "filter (\<lambda>n. f r = n) ns = [f r]"
      using assms(1) by (induction ns) (auto simp: filter_empty_conv)
    then show ?thesis by simp
  qed
  also have "(\<Sum>n\<leftarrow>ns. length (filter (\<lambda>x. f x = n) rs)) = length rs"
    using Cons by simp
  finally show ?case by simp
qed

lemma sum_dept_counts: "sum_list (map snd (dept_counts s)) = length (dept_join s)"
proof -
  have "sum_list (map snd (dept_counts s)) =
      (\<Sum>n\<leftarrow>remdups (map (\<lambda>(d, u, a). department_name d) (dept_join s)).
         length (filter (\<lambda>r. (\<lambda>(d, u, a). department_name d) r = n) (dept_join s)))"
    by (simp add: dept_counts_def Let_def comp_def case_prod_unfold)
  also have "\<dots> = length (dept_join s)"
    by (rule sum_list_group_counts) simp_all
  finally show ?thesis .
qed

lemma dept_join_mem:
  "(d, u, a) \<in> set (dept_join s) \<longleftrightarrow>
     d \<in> set (tbl_departments s) \<and> u \<in> set (tbl_users s) \<and> a \<in> set (tbl_appointments s)
     \<and> u_department_id u = SqlInt (department_id d) \<and> faculty_id a = user_id u"
  by (auto simp: dept_join_def)

lemma users_handle:
  "tbl_users (db (handle e ev sess s)) = tbl_users s
   \<or> (\<exists>u. tbl_users (db (handle e ev sess s)) = tbl_users s @ [u]
          \<and> user_id u = next_id (map user_id (tbl_users s)))"
proof (cases ev)
  case (Ev_register salt req)
  then show ?thesis
    by (simp add: register_def respond_def raise_def Let_def split: option.splits)
next
  case (Ev_login req)
  then show ?thesis by (simp add: login_def respond_def raise_def split: option.splits)
next
  case Ev_logout
  then show ?thesis by (simp add: logout_def respond_def)
next
  case Ev_index
  then show ?thesis by (simp add: index_def respond_def)
next
  case Ev_dashboard
  then show ?thesis
    by (simp add: dashboard_def login_required_def dashboard_body_def respond_def raise_def
        Let_def split: option.splits)
next
  case Ev_appointments
  then show ?thesis
    by (simp add: appointments_def login_required_def appointments_body_def respond_def
        raise_def Let_def split: option.splits)
next
  case (Ev_new_appointment now req)
  then show ?thesis
    by (simp add: new_appointment_def login_required_def new_appointment_body_def respond_def
        raise_def Let_def split: option.splits)
next
  case (Ev_cancel_appointment aid)
  then show ?thesis
    by (simp add: cancel_appointment_def login_required_def cancel_appointment_body_def
        respond_def raise_def Let_def split: option.splits)
next
  case (Ev_availability req)
  then show ?thesis
    by (simp add: availability_def login_required_def availability_body_def respond_def
        raise_def Let_def split: option.splits)
next
  case (Ev_departments req)
  then show ?thesis
    by (simp add: departments_def login_required_def departments_body_def respond_def
        raise_def Let_def split: option.splits)
qed

lemma departments_handle:
  "tbl_departments (db (handle e ev sess s)) = tbl_departments s
   \<or> (\<exists>d. tbl_departments (db (handle e ev sess s)) = tbl_departments s @ [d]
          \<and> department_id d = next_id (map department_id (tbl_departments s)))"
proof (cases ev)
  case (Ev_register salt req)
  then show ?thesis
    by (simp add: register_def respond_def raise_def Let_def split: option.splits)
next
  case (Ev_login req)
  then show ?thesis by (simp add: login_def respond_def raise_def split: option.splits)
next
  case Ev_logout
  then show ?thesis by (simp add: logout_def respond_def)
next
  case Ev_index
  then show ?thesis by (simp add: index_def respond_def)
next
  case Ev_dashboard
  then show ?thesis
    by (simp add: dashboard_def login_required_def dashboard_body_def respond_def raise_def
        Let_def split: option.splits)
next
  case Ev_appointments
  then show ?thesis
    by (simp add: appointments_def login_required_def appointments_body_def respond_def
        raise_def Let_def split: option.splits)
next
  case (Ev_new_appointment now req)
  then show ?thesis
    by (simp add: new_appointment_def login_required_def new_appointment_body_def respond_def
        raise_def Let_def split: option.splits)
next
  case (Ev_cancel_appointment aid)
  then show ?thesis
    by (simp add: cancel_appointment_def login_required_def cancel_appointment_body_def
        respond_def raise_def Let_def split: option.splits)
next
  case (Ev_availability req)
  then show ?thesis
    by (simp add: availability_def login_required_def availability_body_def respond_def
        raise_def Let_def split: option.splits)
next
  case (Ev_departments req)
  then show ?thesis
    by (simp add: departments_def login_required_def departments_body_def respond_def
        raise_def Let_def split: option.splits)
qed

lemma distinct_append_next_id:
  assumes "distinct (map key xs)" and "key x = next_id (map key xs)"
  shows "distinct (map key (xs @ [x]))"
  using assms next_id_notin[of "map key xs"] by simp

lemma reachable_primary_keys:
  assumes "reachable e s"
  shows "distinct (map department_id (tbl_departments s)) \<and> distinct (map user_id (tbl_users s))"
  using assms
proof (induction rule: reachable.induct)
  case start
  then show ?case by (simp add: empty_store_def)
next
  case (http s ev sess)
  have "distinct (map department_id (tbl_departments (db (handle e ev sess s))))"
    using departments_handle[of e ev sess s] http.IH
    by (auto simp del: map_append distinct_append intro: distinct_append_next_id)
  moreover have "distinct (map user_id (tbl_users (db (handle e ev sess s))))"
    using users_handle[of e ev sess s] http.IH
    by (auto simp del: map_append distinct_append intro: distinct_append_next_id)
  ultimately show ?case by simp
next
  case (cli s salts)
  show ?case by (simp add: init_db_def Let_def)
qed

text \<open>
  Claim C7. In a store whose department and user keys are unique (as the primary keys make
  them, and as \<open>reachable_primary_keys\<close> shows for every reachable store), every pair
  the per-department query lists has a count of at least 1 and names a department that has
  a user with an appointment as faculty; and the listed counts sum to at most the number of
  all Appointment rows.
\<close>

theorem dept_counts_inner_join:
  assumes "distinct (map department_id (tbl_departments s))"
    and "distinct (map user_id (tbl_users s))"
  shows "(\<forall>(n, c) \<in> set (dept_counts s).
            1 \<le> c
          \<and> (\<exists>d \<in> set (tbl_departments s). \<exists>u \<in> set (tbl_users s).
               \<exists>a \<in> set (tbl_appointments s).
                 department_name d = n \<and> u_department_id u = SqlInt (department_id d)
               \<and> faculty_id a = user_id u))
       \<and> sum_list (map snd (dept_counts s)) \<le> length (tbl_appointments s)"
proof (intro conjI ballI)
  fix p
  assume p: "p \<in> set (dept_counts s)"
  obtain n c where nc: "p = (n, c)" by (cases p)
  let ?name = "\<lambda>(d, u, a). department_name (d :: department_row)"
  from p nc have n: "n \<in> set (map ?name (dept_join s))"
    and c: "c = length (filter (\<lambda>r. ?name r = n) (dept_join s))"
    by (auto simp: dept_counts_def Let_def case_prod_unfold)
  from n obtain d u a where r: "(d, u, a) \<in> set (dept_join s)" "department_name d = n"
    by auto
  then have "(d, u, a) \<in> set (filter (\<lambda>r. ?name r = n) (dept_join s))" by simp
  then have "filter (\<lambda>r. ?name r = n) (dept_join s) \<noteq> []" by (metis empty_iff empty_set)
  then have "1 \<le> c" using c by (simp add: Suc_le_eq)
  moreover have "\<exists>d \<in> set (tbl_departments s). \<exists>u \<in> set (tbl_users s).
               \<exists>a \<in> set (tbl_appointments s).
                 department_name d = n \<and> u_department_id u = SqlInt (department_id d)
               \<and> faculty_id a = user_id u"
    using r by (auto simp: dept_join_mem)
  ultimately show "case p of (n, c) \<Rightarrow> 1 \<le> c
          \<and> (\<exists>d \<in> set (tbl_departments s). \<exists>u \<in> set (tbl_users s).
               \<exists>a \<in> set (tbl_appointments s).
                 department_name d = n \<and> u_department_id u = SqlInt (department_id d)
               \<and> faculty_id a = user_id u)"
    using nc by simp
next
  show "sum_list (map snd (dept_counts s)) \<le> length (tbl_appointments s)"
    using length_dept_join_le[OF assms] by (simp add: sum_dept_counts)
qed

theorem dept_counts_inner_join_witness:
  "distinct (map department_id (tbl_departments booked))
   \<and> distinct (map user_id (tbl_users booked))
   \<and> (''Computer Science'', 1) \<in> set (dept_counts booked)
   \<and> sum_list (map snd (dept_counts booked)) \<le> length (tbl_appointments booked)
   \<and> length (tbl_appointments booked) = 1"
proof -
  have d: "distinct (map department_id (tbl_departments booked))"
    by (simp add: booked_eq seeded_def init_db_def Let_def)
  have u: "distinct (map user_id (tbl_users booked))"
    by (simp add: booked_eq seeded_users admin_user_def dr_johnson_def dr_lee_def dr_patel_def
        john_student_def)
  have m: "(''Computer Science'', 1) \<in> set (dept_counts booked)"
    by (simp add: booked_dept_counts)
  have l: "length (tbl_appointments booked) = 1" by (simp add: booked_eq)
  from dept_counts_inner_join[OF d u]
  show ?thesis using d u m l by blast
qed

section \<open>Adding availability\<close>

text \<open>
  Claim C8. For a logged-in faculty user and any stored availability, an add-availability
  request (POST with day, start time and end time, whatever their values) succeeds and
  appends one Availability row for that user with the flag true. Nothing is checked about
  overlap or the order of the times: a second such request, whatever its times, appends a
  second row.
\<close>

theorem availability_no_validation:
  assumes "current_user sess s = Some u" and "role u = ''faculty''"
    and "req_method req = POST"
    and "map_of (req_form req) ''day_of_week'' = Some day"
    and "map_of (req_form req) ''start_time'' = Some start"
    and "map_of (req_form req) ''end_time'' = Some end"
    and "req_method req2 = POST"
    and "map_of (req_form req2) ''day_of_week'' = Some day2"
    and "map_of (req_form req2) ''start_time'' = Some start2"
    and "map_of (req_form req2) ''end_time'' = Some end2"
  shows "reply (availability req sess s) =
           Inr (Render (Availability_html
                  (filter (\<lambda>v. av_faculty_id v = user_id u)
                     (tbl_availability (db (availability req sess s))))))
       \<and> flashed (availability req sess s) = [(''Availability slot added.'', ''success'')]
       \<and> db (availability req sess s) =
           s\<lparr>tbl_availability := tbl_availability s @
               [\<lparr>availability_id = next_id (map availability_id (tbl_availability s)),
                 av_faculty_id = user_id u, day_of_week = day,
                 av_start_time = start, av_end_time = end, is_available = True\<rparr>]\<rparr>
       \<and> (\<exists>id1 id2. tbl_availability (db (availability req2 sess (db (availability req sess s)))) =
             tbl_availability s @
               [\<lparr>availability_id = id1, av_faculty_id = user_id u, day_of_week = day,
                 av_start_time = start, av_end_time = end, is_available = True\<rparr>,
                \<lparr>availability_id = id2, av_faculty_id = user_id u, day_of_week = day2,
                 av_start_time = start2, av_end_time = end2, is_available = True\<rparr>])"
proof -
  have one: "availability r sess t =
      respond (Render (Availability_html (filter (\<lambda>v. av_faculty_id v = user_id u)
          (tbl_availability t @
               [\<lparr>availability_id = next_id (map availability_id (tbl_availability t)),
                 av_faculty_id = user_id u, day_of_week = d,
                 av_start_time = st, av_end_time = en, is_available = True\<rparr>]))))
        [(''Availability slot added.'', ''success'')]
        (t\<lparr>tbl_availability := tbl_availability t @
               [\<lparr>availability_id = next_id (map availability_id (tbl_availability t)),
                 av_faculty_id = user_id u, day_of_week = d,
                 av_start_time = st, av_end_time = en, is_available = True\<rparr>]\<rparr>) sess"
    if "current_user sess t = Some u" "req_method r = POST"
      "map_of (req_form r) ''day_of_week'' = Some d"
      "map_of (req_form r) ''start_time'' = Some st"
      "map_of (req_form r) ''end_time'' = Some en" for r t d st en
    using that assms(2)
    by (simp add: availability_def login_required_user availability_body_def Let_def)
  note first = one[OF assms(1,3,4,5,6)]
  have "current_user sess (db (availability req sess s)) = current_user sess s"
    by (rule current_user_users_eq) (simp add: first respond_def)
  then have user: "current_user sess (db (availability req sess s)) = Some u"
    using assms(1) by simp
  note second = one[OF user assms(7,8,9,10)]
  show ?thesis
    apply (intro conjI)
       apply (simp add: first respond_def)
      apply (simp add: first respond_def)
     apply (simp add: first respond_def)
    apply (simp add: second respond_def)
    apply (simp add: first respond_def)
    done
qed

theorem availability_no_validation_witness:
  "current_user (Some 2) seeded = Some dr_johnson \<and> role dr_johnson = ''faculty''
   \<and> flashed (availability (slot_form ''Mon'' ''09:00'' ''10:00'') (Some 2) seeded) =
        [(''Availability slot added.'', ''success'')]
   \<and> tbl_availability (db (availability (slot_form ''Mon'' ''09:00'' ''10:00'') (Some 2) seeded)) =
        [\<lparr>availability_id = 1, av_faculty_id = 2, day_of_week = ''Mon'',
          av_start_time = ''09:00'', av_end_time = ''10:00'', is_available = True\<rparr>]
   \<and> length (tbl_availability
         (db (availability (slot_form ''Mon'' ''09:30'' ''08:00'') (Some 2)
            (db (availability (slot_form ''Mon'' ''09:00'' ''10:00'') (Some 2) seeded))))) = 2"
proof -
  have u: "current_user (Some 2) seeded = Some dr_johnson" by (rule seeded_current_user)
  have r: "role dr_johnson = ''faculty''" by (simp add: dr_johnson_def)
  have form: "req_method (slot_form d s e) = POST"
    "map_of (req_form (slot_form d s e)) ''day_of_week'' = Some d"
    "map_of (req_form (slot_form d s e)) ''start_time'' = Some s"
    "map_of (req_form (slot_form d s e)) ''end_time'' = Some e" for d s e
    by (simp_all add: slot_form_def)
  from availability_no_validation[OF u r form form, of "''Mon''" "''09:00''" "''10:00''"
      "''Mon''" "''09:30''" "''08:00''"]
  show ?thesis
    using u r by (auto simp: seeded_empty_tables next_id_def dr_johnson_def)
qed

section \<open>Roles other than student and faculty\<close>

text \<open>
  Claim C9. For a logged-in user whose role is neither \<open>student\<close> nor \<open>faculty\<close>,
  whatever else the role string is, the appointments listing shows all Appointment rows and
  the dashboard's \<open>my_appointments\<close> equals \<open>total_appointments\<close>.
\<close>

theorem other_roles_see_all:
  assumes "current_user sess s = Some u" and "role u \<noteq> ''student''" and "role u \<noteq> ''faculty''"
  shows "reply (appointments sess s) = Inr (Render (Appointments_html (tbl_appointments s) u))
       \<and> reply (dashboard sess s) =
           Inr (Render (Dashboard_html u (length (tbl_appointments s))
                          (length (tbl_appointments s))
                          (map fst (dept_counts s)) (map snd (dept_counts s))))"
  using dashboard_catch_all[OF assms] appointments_catch_all[OF assms] by (simp add: respond_def)

theorem other_roles_see_all_witness:
  "current_user (Some 6) with_visitor = Some vera_visitor \<and> role vera_visitor = ''visitor''
   \<and> reply (appointments (Some 6) with_visitor) =
        Inr (Render (Appointments_html [first_booking] vera_visitor))
   \<and> reply (dashboard (Some 6) with_visitor) =
        Inr (Render (Dashboard_html vera_visitor 1 1 [''Computer Science''] [1]))"
proof -
  have u: "current_user (Some 6) with_visitor = Some vera_visitor"
    by (rule with_visitor_current_user)
  have r: "role vera_visitor = ''visitor''" "role vera_visitor \<noteq> ''student''"
    "role vera_visitor \<noteq> ''faculty''"
    by (simp_all add: vera_visitor_def)
  have c: "dept_counts with_visitor = [(''Computer Science'', 1)]"
    by (simp add: dept_counts_def dept_join_def with_visitor_eq booked_eq seeded_users
        first_booking_def admin_user_def dr_johnson_def dr_lee_def dr_patel_def john_student_def
        vera_visitor_def Let_def)
      (simp add: seeded_def init_db_def Let_def)
  have l: "tbl_appointments with_visitor = [first_booking]"
    by (simp add: with_visitor_eq booked_eq)
  from other_roles_see_all[OF u r(2) r(3)]
  show ?thesis using u r(1) by (simp add: c l)
qed

section \<open>Cancelling twice\<close>

text \<open>
  Claim C10. When the caller may cancel the stored appointment (is not a student or faculty
  member it does not belong to), cancelling sets its status to \<open>cancelled\<close> whatever
  the status was before, and cancelling again returns the same reply and leaves the same
  store as cancelling once.
\<close>

theorem cancel_idempotent:
  assumes "current_user sess s = Some u" and "in_int64 aid"
    and "find (\<lambda>a. appointment_id a = aid) (tbl_appointments s) = Some a"
    and "\<not> (role u = ''student'' \<and> student_id a \<noteq> user_id u)"
    and "\<not> (role u = ''faculty'' \<and> faculty_id a \<noteq> user_id u)"
  shows "reply (cancel_appointment aid sess s) = Inr (Redirect Ep_appointments)
       \<and> flashed (cancel_appointment aid sess s) = [(''Appointment cancelled.'', ''info'')]
       \<and> tbl_appointments (db (cancel_appointment aid sess s)) =
           map (\<lambda>x. if appointment_id x = aid then x\<lparr>status := ''cancelled''\<rparr> else x)
             (tbl_appointments s)
       \<and> find (\<lambda>a. appointment_id a = aid)
            (tbl_appointments (db (cancel_appointment aid sess s)))
           = Some (a\<lparr>status := ''cancelled''\<rparr>)
       \<and> cancel_appointment aid sess (db (cancel_appointment aid sess s))
           = cancel_appointment aid sess s"
proof -
  let ?g = "\<lambda>x. if appointment_id x = aid then x\<lparr>status := ''cancelled''\<rparr> else x"
  let ?s1 = "s\<lparr>tbl_appointments := map ?g (tbl_appointments s)\<rparr>"
  have eq: "cancel_appointment aid sess s =
      respond (Redirect Ep_appointments) [(''Appointment cancelled.'', ''info'')] ?s1 sess"
    by (rule cancel_allowed[OF assms])
  have aid: "appointment_id a = aid"
    using assms(3) by (auto simp: find_Some_iff)
  have "find (\<lambda>a. appointment_id a = aid) (map ?g (tbl_appointments s))
        = map_option ?g (find (\<lambda>a. appointment_id a = aid) (tbl_appointments s))"
    by (rule find_map_id) simp
  then have found: "find (\<lambda>a. appointment_id a = aid) (tbl_appointments ?s1)
        = Some (a\<lparr>status := ''cancelled''\<rparr>)"
    using aid assms(3) by simp
  have "current_user sess ?s1 = current_user sess s"
    by (rule current_user_users_eq) simp
  then have user: "current_user sess ?s1 = Some u"
    using assms(1) by simp
  have "cancel_appointment aid sess ?s1 =
      respond (Redirect Ep_appointments) [(''Appointment cancelled.'', ''info'')]
        (?s1\<lparr>tbl_appointments := map ?g (tbl_appointments ?s1)\<rparr>) sess"
    using assms(4,5) by (intro cancel_allowed[OF user assms(2) found]) simp_all
  then have again: "cancel_appointment aid sess ?s1 = cancel_appointment aid sess s"
    by (simp add: eq cancel_comp_idem)
  show ?thesis
    using found again by (simp add: eq respond_def)
qed

theorem cancel_idempotent_witness:
  "current_user (Some 5) booked = Some john_student
   \<and> student_id first_booking = user_id john_student
   \<and> tbl_appointments (db (cancel_appointment 1 (Some 5) booked)) =
        [first_booking\<lparr>status := ''cancelled''\<rparr>]
   \<and> cancel_appointment 1 (Some 5) (db (cancel_appointment 1 (Some 5) booked))
        = cancel_appointment 1 (Some 5) booked
   \<and> current_user (Some 1) marked_completed = Some admin_user
   \<and> tbl_appointments marked_completed = [first_booking\<lparr>status := ''completed''\<rparr>]
   \<and> tbl_appointments (db (cancel_appointment 1 (Some 1) marked_completed)) =
        [first_booking\<lparr>status := ''cancelled''\<rparr>]"
proof -
  have u: "current_user (Some 5) booked = Some john_student" by (rule booked_current_user)
  have i: "in_int64 1" by (simp add: in_int64_def)
  have own: "student_id first_booking = user_id john_student"
    by (simp add: first_booking_def john_student_def)
  have a1: "\<not> (role john_student = ''student'' \<and> student_id first_booking \<noteq> user_id john_student)"
    using own by simp
  have a2: "\<not> (role john_student = ''faculty'' \<and> faculty_id first_booking \<noteq> user_id john_student)"
    by (simp add: john_student_def)
  have "current_user (Some 1) marked_completed = current_user (Some 1) booked"
    by (rule current_user_users_eq) (simp add: marked_completed_def)
  then have adm: "current_user (Some 1) marked_completed = Some admin_user"
    by (simp add: booked_current_user)
  have rows: "tbl_appointments marked_completed = [first_booking\<lparr>status := ''completed''\<rparr>]"
    by (simp add: marked_completed_def)
  have found: "find (\<lambda>a. appointment_id a = 1) (tbl_appointments marked_completed)
                 = Some (first_booking\<lparr>status := ''completed''\<rparr>)"
    by (simp add: rows first_booking_def)
  have b1: "\<not> (role admin_user = ''student''
               \<and> student_id (first_booking\<lparr>status := ''completed''\<rparr>) \<noteq> user_id admin_user)"
    and b2: "\<not> (role admin_user = ''faculty''
               \<and> faculty_id (first_booking\<lparr>status := ''completed''\<rparr>) \<noteq> user_id admin_user)"
    by (simp_all add: admin_user_def)
  from cancel_idempotent[OF u i booked_find a1 a2] cancel_idempotent[OF adm i found b1 b2]
  show ?thesis using u own adm rows by (simp add: booked_eq first_booking_def)
qed

end
